theory Spec2Isabelle
  imports Main
begin

section \<open>Python values\<close>

text \<open>
  The extension reads one JSON document with \<^verbatim>\<open>json.load\<close>, so every value it handles
  is a JSON value as Python sees it: \<^verbatim>\<open>None\<close>, a bool, an int, a float, a str, a list or
  a dict with string keys. A dict is an association list in insertion order; a lookup
  takes the first entry of a key.

  A Python \<^verbatim>\<open>str\<close> is a HOL \<open>string\<close>, one \<open>char\<close> for one code point, so the model
  covers text whose code points fit HOL's \<open>char\<close> (0 to 255).

  A float is kept abstract: the program only tests it for truth and prints it, so it is
  given by these two observations.
\<close>

datatype pyfloat = PyFloat (float_nonzero: bool) (float_repr: string)

datatype json =
    JNull
  | JBool bool
  | JInt int
  | JFloat pyfloat
  | JStr string
  | JArr "json list"
  | JObj "(string \<times> json) list"

text \<open>
  An exception is the message \<^verbatim>\<open>str(e)\<close> gives: both handlers of the program catch
  \<^verbatim>\<open>Exception\<close> and use nothing but that message.
\<close>

datatype exception = Exception string

fun str_exc :: "exception \<Rightarrow> string" where
  "str_exc (Exception msg) = msg"

fun type_name :: "json \<Rightarrow> string" where
  "type_name JNull = ''NoneType''"
| "type_name (JBool b) = ''bool''"
| "type_name (JInt i) = ''int''"
| "type_name (JFloat f) = ''float''"
| "type_name (JStr s) = ''str''"
| "type_name (JArr xs) = ''list''"
| "type_name (JObj kvs) = ''dict''"

definition AttributeError :: "json \<Rightarrow> string \<Rightarrow> exception" where
  "AttributeError v attr =
     Exception ([CHR 0x27] @ type_name v @ [CHR 0x27] @ '' object has no attribute ''
                @ [CHR 0x27] @ attr @ [CHR 0x27])"

subsection \<open>Truth value, \<^verbatim>\<open>dict.get\<close>\<close>

fun py_truthy :: "json \<Rightarrow> bool" where
  "py_truthy JNull = False"
| "py_truthy (JBool b) = b"
| "py_truthy (JInt i) = (i \<noteq> 0)"
| "py_truthy (JFloat f) = float_nonzero f"
| "py_truthy (JStr s) = (s \<noteq> [])"
| "py_truthy (JArr xs) = (xs \<noteq> [])"
| "py_truthy (JObj kvs) = (kvs \<noteq> [])"

text \<open>\<^verbatim>\<open>data.get(key, default)\<close>: only a dict has the method.\<close>

fun py_get :: "json \<Rightarrow> string \<Rightarrow> json \<Rightarrow> exception + json" where
  "py_get (JObj kvs) key dflt = Inr (case map_of kvs key of None \<Rightarrow> dflt | Some v \<Rightarrow> v)"
| "py_get v key dflt = Inl (AttributeError v ''get'')"

subsection \<open>Strings: case mapping, substring test, split, join\<close>

text \<open>
  \<^verbatim>\<open>str.lower\<close> on the code points below 256: the ASCII capitals and the Latin-1
  capitals (all of C0 to DE but the multiplication sign D7) move up by 32.
\<close>

definition lower_char :: "char \<Rightarrow> char" where
  "lower_char c =
     (let n = (of_char c :: nat)
      in if (65 \<le> n \<and> n \<le> 90) \<or> (192 \<le> n \<and> n \<le> 222 \<and> n \<noteq> 215)
         then char_of (n + 32) else c)"

definition lower :: "string \<Rightarrow> string" where
  "lower s = map lower_char s"

text \<open>
  \<^verbatim>\<open>str.capitalize\<close>: the first character in title case, the rest in lower case. The
  title case of the sharp s (DF) is \<^verbatim>\<open>Ss\<close>; those of the micro sign (B5) and of the y with
  diaeresis (FF) lie beyond \<open>char\<close>, and the model leaves these two characters as they
  are.
\<close>

definition title_char :: "char \<Rightarrow> string" where
  "title_char c =
     (let n = (of_char c :: nat)
      in if (97 \<le> n \<and> n \<le> 122) \<or> (224 \<le> n \<and> n \<le> 254 \<and> n \<noteq> 247)
         then [char_of (n - 32)]
         else if n = 223 then ''Ss'' else [c])"

fun capitalize :: "string \<Rightarrow> string" where
  "capitalize [] = []"
| "capitalize (c # cs) = title_char c @ lower cs"

text \<open>The two methods called on a value of the request: only a str has them.\<close>

fun py_lower :: "json \<Rightarrow> exception + string" where
  "py_lower (JStr s) = Inr (lower s)"
| "py_lower v = Inl (AttributeError v ''lower'')"

fun py_capitalize :: "json \<Rightarrow> exception + string" where
  "py_capitalize (JStr s) = Inr (capitalize s)"
| "py_capitalize v = Inl (AttributeError v ''capitalize'')"

text \<open>\<^verbatim>\<open>sub in s\<close> on strings: \<open>sub\<close> occurs in \<open>s\<close> as a contiguous piece.\<close>

fun starts_with :: "string \<Rightarrow> string \<Rightarrow> bool" where
  "starts_with s [] = True"
| "starts_with [] (p # ps) = False"
| "starts_with (c # cs) (p # ps) = (c = p \<and> starts_with cs ps)"

fun py_in :: "string \<Rightarrow> string \<Rightarrow> bool" where
  "py_in sub [] = (sub = [])"
| "py_in sub (c # cs) = (starts_with (c # cs) sub \<or> py_in sub cs)"

text \<open>
  \<^verbatim>\<open>s.split(sep)\<close> for a separator of one character: the pieces between the
  separators, the empty ones too. \<open>split_from\<close> carries the piece read so far.
\<close>

fun split_from :: "char \<Rightarrow> string \<Rightarrow> string \<Rightarrow> string list" where
  "split_from sep cur [] = [cur]"
| "split_from sep cur (c # cs) =
     (if c = sep then cur # split_from sep [] cs else split_from sep (cur @ [c]) cs)"

definition py_split :: "string \<Rightarrow> char \<Rightarrow> string list" where
  "py_split s sep = split_from sep [] s"

fun py_join :: "string \<Rightarrow> string list \<Rightarrow> string" where
  "py_join sep [] = []"
| "py_join sep [x] = x"
| "py_join sep (x # y # ys) = x @ sep @ py_join sep (y # ys)"

subsection \<open>\<^verbatim>\<open>str\<close> and \<^verbatim>\<open>repr\<close>\<close>

definition digit_char :: "nat \<Rightarrow> char" where
  "digit_char d = char_of (48 + d)"

fun str_nat :: "nat \<Rightarrow> string" where
  "str_nat n = (if n < 10 then [digit_char n] else str_nat (n div 10) @ [digit_char (n mod 10)])"

declare str_nat.simps [simp del]

definition str_int :: "int \<Rightarrow> string" where
  "str_int i = (if i < 0 then CHR ''-'' # str_nat (nat (- i)) else str_nat (nat i))"

definition hex_char :: "nat \<Rightarrow> char" where
  "hex_char d = (if d < 10 then char_of (48 + d) else char_of (87 + d))"

text \<open>
  \<^verbatim>\<open>repr\<close> of a str: in single quotes, unless the text has a single quote and no double
  quote; the quote and the backslash escaped, tab, newline and carriage return by their
  letters, the other characters that are not printable as \<^verbatim>\<open>\xhh\<close>.
\<close>

definition repr_quote :: "string \<Rightarrow> char" where
  "repr_quote s = (if CHR 0x27 \<in> set s \<and> CHR 0x22 \<notin> set s then CHR 0x22 else CHR 0x27)"

definition repr_char :: "char \<Rightarrow> char \<Rightarrow> string" where
  "repr_char q c =
     (let n = (of_char c :: nat)
      in if c = q \<or> c = CHR 0x5C then [CHR 0x5C, c]
         else if n = 9 then [CHR 0x5C, CHR ''t'']
         else if n = 10 then [CHR 0x5C, CHR ''n'']
         else if n = 13 then [CHR 0x5C, CHR ''r'']
         else if n < 32 \<or> n = 127 \<or> (128 \<le> n \<and> n \<le> 160) \<or> n = 173
         then [CHR 0x5C, CHR ''x'', hex_char (n div 16), hex_char (n mod 16)]
         else [c])"

definition repr_str :: "string \<Rightarrow> string" where
  "repr_str s = (let q = repr_quote s in [q] @ concat (map (repr_char q) s) @ [q])"

primrec py_repr :: "json \<Rightarrow> string" where
  "py_repr JNull = ''None''"
| "py_repr (JBool b) = (if b then ''True'' else ''False'')"
| "py_repr (JInt i) = str_int i"
| "py_repr (JFloat f) = float_repr f"
| "py_repr (JStr s) = repr_str s"
| "py_repr (JArr xs) = ''['' @ py_join '', '' (map py_repr xs) @ '']''"
| "py_repr (JObj kvs) =
     ''{'' @ py_join '', '' (map (\<lambda>(k, r). repr_str k @ '': '' @ r) (map (map_prod id py_repr) kvs))
     @ ''}''"

text \<open>What an f-string puts for \<^verbatim>\<open>{v}\<close>: \<^verbatim>\<open>str(v)\<close>, the text itself for a str.\<close>

definition py_str :: "json \<Rightarrow> string" where
  "py_str v = (case v of JStr s \<Rightarrow> s | _ \<Rightarrow> py_repr v)"

section \<open>The environment\<close>

text \<open>
  The program sees the world through four calls. \<^verbatim>\<open>json.load(sys.stdin)\<close> gives the
  parsed document or raises; its outcome is the first argument of \<open>main\<close>.
  \<^verbatim>\<open>os.path.exists(file_path)\<close>, \<^verbatim>\<open>open(file_path, 'r', encoding='utf-8')\<close> and
  \<^verbatim>\<open>f.read()\<close> are the three fields of the file system below: each takes the value of
  \<^verbatim>\<open>file_path\<close> (any JSON value, since the program does not check its type) and gives
  its result or the exception it raises. \<open>read_text\<close> gives the text as \<^verbatim>\<open>f.read()\<close>
  returns it.
\<close>

record filesystem =
  os_path_exists :: "json \<Rightarrow> exception + bool"
  open_file :: "json \<Rightarrow> exception option"
  read_text :: "json \<Rightarrow> exception + string"

text \<open>
  The calls a run makes, in order. \<open>Close\<close> is the end of the \<^verbatim>\<open>with\<close> block, which
  closes the file it opened.
\<close>

datatype fs_event = Exists json | Open json | Read json | Close json

text \<open>
  Python takes an integer argument of \<^verbatim>\<open>os.path.exists\<close> and \<^verbatim>\<open>open\<close> as a file
  descriptor, and a bool is an integer. Descriptor 1 is standard output: a file object
  opened on it closes standard output itself when it is closed.
\<close>

definition is_stdout_fd :: "json \<Rightarrow> bool" where
  "is_stdout_fd p = (p = JInt 1 \<or> p = JBool True)"

fun closes_stdout :: "fs_event \<Rightarrow> bool" where
  "closes_stdout (Close p) = is_stdout_fd p"
| "closes_stdout ev = False"

definition stdout_closed :: "fs_event list \<Rightarrow> bool" where
  "stdout_closed evs = list_ex closes_stdout evs"

text \<open>
  \<^verbatim>\<open>json.dump(v, sys.stdout)\<close> hands one value to the stream, which buffers it.
\<close>

definition json_dump :: "json \<Rightarrow> json list \<Rightarrow> json list" where
  "json_dump v out = out @ [v]"

section \<open>The file analyzer\<close>

text \<open>
  \<^verbatim>\<open>process_file_analyzer(data)\<close>. The result is what the function returns or raises,
  with the file-system calls it made. Everything from the existence check on is inside
  the function's own \<^verbatim>\<open>try\<close>, whose handler turns an exception into an error record.
\<close>

definition newline :: char where
  "newline = CHR 0x0A"

definition analysis_text :: "json \<Rightarrow> json \<Rightarrow> string \<Rightarrow> string" where
  "analysis_text analysis_type file_path content =
     (if analysis_type = JStr ''security'' then
        ''Security analysis of '' @ py_str file_path
        @ '': No critical security issues detected. File contains ''
        @ str_nat (length content) @ '' characters.''
      else if analysis_type = JStr ''performance'' then
        ''Performance analysis of '' @ py_str file_path @ '': File size is ''
        @ str_nat (length content) @ '' characters. No performance bottlenecks detected.''
      else
        (let lines = py_split content newline
         in ''Summary of '' @ py_str file_path @ '': File contains ''
            @ str_nat (length lines) @ '' lines and ''
            @ str_nat (length content) @ '' characters.''))"

definition process_file_analyzer ::
  "filesystem \<Rightarrow> json \<Rightarrow> (exception + json) \<times> fs_event list" where
  "process_file_analyzer fs data =
     (case py_get data ''file_path'' (JStr []) of
        Inl e \<Rightarrow> (Inl e, [])
      | Inr file_path \<Rightarrow>
     (case py_get data ''analysis_type'' (JStr ''summary'') of
        Inl e \<Rightarrow> (Inl e, [])
      | Inr analysis_type \<Rightarrow>
        if \<not> py_truthy file_path then
          (Inr (JObj [(''error'', JStr ''File path is required'')]), [])
        else
          (case os_path_exists fs file_path of
             Inl e \<Rightarrow>
               (Inr (JObj [(''error'', JStr (''Failed to analyze file: '' @ str_exc e))]),
                [Exists file_path])
           | Inr False \<Rightarrow>
               (Inr (JObj [(''error'', JStr (''File not found: '' @ py_str file_path))]),
                [Exists file_path])
           | Inr True \<Rightarrow>
               (case open_file fs file_path of
                  Some e \<Rightarrow>
                    (Inr (JObj [(''error'', JStr (''Failed to analyze file: '' @ str_exc e))]),
                     [Exists file_path, Open file_path])
                | None \<Rightarrow>
                    (case read_text fs file_path of
                       Inl e \<Rightarrow>
                         (Inr (JObj [(''error'',
                                      JStr (''Failed to analyze file: '' @ str_exc e))]),
                          [Exists file_path, Open file_path, Read file_path, Close file_path])
                     | Inr content \<Rightarrow>
                         (Inr (JObj [(''result'',
                                      JStr (analysis_text analysis_type file_path content))]),
                          [Exists file_path, Open file_path, Read file_path,
                           Close file_path]))))))"

section \<open>The code generator\<close>

text \<open>The web API template (lines 81 to 98 of the source), one entry for each line.\<close>

definition web_api_code :: string where
  \<open>web_api_code = py_join ''\<newline>''
     [''# Web API Implementation'',
      ''from flask import Flask, jsonify, request'',
      [],
      ''app = Flask(__name__)'',
      [],
      ''@app.route('/api/data', methods=['GET'])'',
      ''def get_data():'',
      ''    """Get sample data"""'',
      ''    return jsonify({"message": "Hello from Flask API"})'',
      [],
      ''@app.route('/api/data', methods=['POST'])'',
      ''def post_data():'',
      ''    """Post data to API"""'',
      ''    data = request.get_json()'',
      ''    return jsonify({"received": data, "status": "success"})'',
      [],
      ''if __name__ == '__main__':'',
      ''    app.run(debug=True)'']\<close>

text \<open>The data analysis template (lines 101 to 132). Line 111 holds an escaped backslash.\<close>

definition data_analysis_code :: string where
  \<open>data_analysis_code = py_join ''\<newline>''
     [''# Data Analysis Script'',
      ''import pandas as pd'',
      ''import matplotlib.pyplot as plt'',
      [],
      ''def analyze_data(file_path):'',
      ''    """Analyze data from a CSV file"""'',
      ''    try:'',
      ''        df = pd.read_csv(file_path)'',
      ''        print(f"Data shape: {df.shape}")'',
      ''        print(f"Columns: {list(df.columns)}")'',
      ''        print("'' @ [CHR 0x5C] @ ''nFirst 5 rows:")'',
      ''        print(df.head())'',
      ''        return df'',
      ''    except Exception as e:'',
      ''        print(f"Error reading data: {e}")'',
      ''        return None'',
      [],
      ''def visualize_data(df, column_name):'',
      ''    """Create a simple visualization"""'',
      ''    if column_name in df.columns:'',
      ''        plt.figure(figsize=(10, 6))'',
      ''        df[column_name].hist()'',
      ''        plt.title(f'Distribution of {column_name}')'',
      ''        plt.xlabel(column_name)'',
      ''        plt.ylabel('Frequency')'',
      ''        plt.show()'',
      ''    else:'',
      ''        print(f"Column {column_name} not found")'',
      [],
      ''# Example usage'',
      ''# df = analyze_data('data.csv')'',
      ''# visualize_data(df, 'value')'']\<close>

text \<open>The generic template (lines 135 to 143).\<close>

definition generic_code :: string where
  \<open>generic_code = py_join ''\<newline>''
     [''# Generic Python Script'',
      ''def main():'',
      ''    """Main function"""'',
      ''    print("Hello from Neonmachines!")'',
      ''    # Your code here'',
      ''    pass'',
      [],
      ''if __name__ == "__main__":'',
      ''    main()'']\<close>

text \<open>
  The placeholder of line 146. The source writes an escaped backslash before the letter
  n in an f-string that is not raw, so the text holds a backslash and the letter n, not a
  line break.
\<close>

definition placeholder_code :: "string \<Rightarrow> json \<Rightarrow> string" where
  "placeholder_code cap specification =
     ''# '' @ cap @ '' code placeholder'' @ [CHR 0x5C] @ ''n# Specification: ''
     @ py_str specification"

text \<open>
  \<^verbatim>\<open>process_code_generator(data)\<close>. It touches no file. The function has no
  \<^verbatim>\<open>try\<close>: a value of the wrong type makes it raise.
\<close>

definition process_code_generator :: "json \<Rightarrow> exception + json" where
  "process_code_generator data =
     (case py_get data ''specification'' (JStr []) of
        Inl e \<Rightarrow> Inl e
      | Inr specification \<Rightarrow>
     (case py_get data ''language'' (JStr ''python'') of
        Inl e \<Rightarrow> Inl e
      | Inr language \<Rightarrow>
     (case py_get data ''framework'' (JStr []) of
        Inl e \<Rightarrow> Inl e
      | Inr framework \<Rightarrow>
        if \<not> py_truthy specification then
          Inr (JObj [(''error'', JStr ''Specification is required'')])
        else
          (case py_lower language of
             Inl e \<Rightarrow> Inl e
           | Inr language_lower \<Rightarrow>
               if language_lower = ''python'' then
                 (case py_lower specification of
                    Inl e \<Rightarrow> Inl e
                  | Inr spec_lower \<Rightarrow>
                      if py_in ''web'' spec_lower \<or> py_in ''api'' spec_lower then
                        Inr (JObj [(''code'', JStr web_api_code),
                                   (''explanation'',
                                    JStr ''Generated a Flask web API with GET and POST endpoints'')])
                      else if py_in ''data'' spec_lower \<or> py_in ''analysis'' spec_lower then
                        Inr (JObj [(''code'', JStr data_analysis_code),
                                   (''explanation'',
                                    JStr ''Generated a data analysis script using pandas and matplotlib'')])
                      else
                        Inr (JObj [(''code'', JStr generic_code),
                                   (''explanation'',
                                    JStr ''Generated a basic Python script template'')]))
               else
                 (case py_capitalize language of
                    Inl e \<Rightarrow> Inl e
                  | Inr cap \<Rightarrow>
                      Inr (JObj [(''code'', JStr (placeholder_code cap specification)),
                                 (''explanation'',
                                  JStr (''Generated placeholder code for ''
                                        @ py_str language))]))))))"

section \<open>Dispatch and entry point\<close>

definition process_input ::
  "filesystem \<Rightarrow> json \<Rightarrow> (exception + json) \<times> fs_event list" where
  "process_input fs data =
     (case py_get data ''tool'' (JStr []) of
        Inl e \<Rightarrow> (Inl e, [])
      | Inr tool_name \<Rightarrow>
          if tool_name = JStr ''file_analyzer'' then process_file_analyzer fs data
          else if tool_name = JStr ''code_generator'' then (process_code_generator data, [])
          else (Inr (JObj [(''error'', JStr (''Unknown tool: '' @ py_str tool_name))]), []))"

text \<open>
  A run of the script: the values it handed to \<^verbatim>\<open>json.dump\<close>, the file-system calls it
  made, and the exception that left \<open>main\<close>, if any.
\<close>

record run =
  written :: "json list"
  fs_log :: "fs_event list"
  raised :: "exception option"

text \<open>
  The stream keeps what it is given in its buffer (the responses of this program are
  short and hold no line break) and the interpreter flushes it when it exits. If the
  run closed descriptor 1, the flush fails: nothing reaches standard output and the exit
  status is 120. Otherwise what was written is what comes out, and the status is 1 if an
  exception left \<open>main\<close> and 0 if it returned.
\<close>

definition stdout :: "run \<Rightarrow> json list" where
  "stdout r = (if stdout_closed (fs_log r) then [] else written r)"

definition exit_code :: "run \<Rightarrow> nat" where
  "exit_code r =
     (case raised r of
        Some e \<Rightarrow> 1
      | None \<Rightarrow> if stdout_closed (fs_log r) \<and> written r \<noteq> [] then 120 else 0)"

text \<open>
  \<^verbatim>\<open>main()\<close>: the body of the \<^verbatim>\<open>try\<close> loads, processes and writes; the handler
  writes the error record after whatever the body wrote before it raised.
\<close>

definition main_try ::
  "exception + json \<Rightarrow> filesystem \<Rightarrow> (exception + unit) \<times> json list \<times> fs_event list" where
  "main_try loaded fs =
     (case loaded of
        Inl e \<Rightarrow> (Inl e, [], [])
      | Inr input_data \<Rightarrow>
          (case process_input fs input_data of
             (Inl e, evs) \<Rightarrow> (Inl e, [], evs)
           | (Inr result, evs) \<Rightarrow> (Inr (), json_dump result [], evs)))"

definition main :: "exception + json \<Rightarrow> filesystem \<Rightarrow> run" where
  "main loaded fs =
     (case main_try loaded fs of
        (Inl e, out, evs) \<Rightarrow>
          \<lparr>written = json_dump (JObj [(''error'', JStr (str_exc e))]) out,
           fs_log = evs, raised = None\<rparr>
      | (Inr u, out, evs) \<Rightarrow> \<lparr>written = out, fs_log = evs, raised = None\<rparr>)"

text \<open>The three shapes of a response.\<close>

fun is_result_shape :: "json \<Rightarrow> bool" where
  "is_result_shape (JObj [(k, JStr s)]) = (k = ''result'')"
| "is_result_shape v = False"

fun is_code_shape :: "json \<Rightarrow> bool" where
  "is_code_shape (JObj [(k1, JStr c), (k2, JStr e)]) = (k1 = ''code'' \<and> k2 = ''explanation'')"
| "is_code_shape v = False"

fun is_error_shape :: "json \<Rightarrow> bool" where
  "is_error_shape (JObj [(k, JStr s)]) = (k = ''error'')"
| "is_error_shape v = False"

section \<open>A sample environment\<close>

text \<open>
  Two text files, and descriptor 1 as a process sees it whose standard output is a pipe
  or a file opened for writing: it exists and can be wrapped, and reading it fails.
\<close>

definition demo_fs :: filesystem where
  "demo_fs =
     \<lparr>os_path_exists =
        (\<lambda>p. Inr (p = JStr ''notes.txt'' \<or> p = JStr ''empty.txt'' \<or> p = JInt 1)),
      open_file =
        (\<lambda>p. if p = JStr ''notes.txt'' \<or> p = JStr ''empty.txt'' \<or> p = JInt 1 then None
             else Some (Exception ''[Errno 2] No such file or directory'')),
      read_text =
        (\<lambda>p. if p = JStr ''notes.txt'' then Inr ''ab\<newline>c\<newline>''
             else if p = JStr ''empty.txt'' then Inr []
             else Inl (Exception ''[Errno 9] Bad file descriptor''))\<rparr>"

section \<open>Facts about the string functions\<close>

lemma starts_with_iff: "starts_with s p \<longleftrightarrow> (\<exists>rest. s = p @ rest)"
  by (induction s p rule: starts_with.induct) auto

text \<open>\<open>py_in\<close> is the substring relation.\<close>

lemma py_in_iff: "py_in sub s \<longleftrightarrow> (\<exists>pre post. s = pre @ sub @ post)"
proof (induction s)
  case Nil
  then show ?case by auto
next
  case (Cons c cs)
  show ?case
  proof
    assume "py_in sub (c # cs)"
    then consider "starts_with (c # cs) sub" | "py_in sub cs" by auto
    then show "\<exists>pre post. c # cs = pre @ sub @ post"
    proof cases
      case 1
      then obtain rest where "c # cs = sub @ rest" by (auto simp: starts_with_iff)
      then have "c # cs = [] @ sub @ rest" by simp
      then show ?thesis by blast
    next
      case 2
      then obtain pre post where "cs = pre @ sub @ post" using Cons.IH by auto
      then have "c # cs = (c # pre) @ sub @ post" by simp
      then show ?thesis by blast
    qed
  next
    assume "\<exists>pre post. c # cs = pre @ sub @ post"
    then obtain pre post where eq: "c # cs = pre @ sub @ post" by blast
    show "py_in sub (c # cs)"
    proof (cases pre)
      case Nil
      with eq have "starts_with (c # cs) sub" by (auto simp: starts_with_iff)
      then show ?thesis by simp
    next
      case (Cons a pre')
      with eq have "cs = pre' @ sub @ post" by simp
      then have "py_in sub cs" using Cons.IH by blast
      then show ?thesis by simp
    qed
  qed
qed







section \<open>Facts about the handlers\<close>

lemma is_result_shape_iff: "is_result_shape v \<longleftrightarrow> (\<exists>s. v = JObj [(''result'', JStr s)])"
  by (induction v rule: is_result_shape.induct) auto

lemma is_code_shape_iff:
  "is_code_shape v \<longleftrightarrow> (\<exists>c e. v = JObj [(''code'', JStr c), (''explanation'', JStr e)])"
  by (induction v rule: is_code_shape.induct) auto

lemma is_error_shape_iff: "is_error_shape v \<longleftrightarrow> (\<exists>s. v = JObj [(''error'', JStr s)])"
  by (induction v rule: is_error_shape.induct) auto

lemma one_shape:
  assumes "is_result_shape v \<or> is_code_shape v \<or> is_error_shape v"
  shows "(is_result_shape v \<and> \<not> is_code_shape v \<and> \<not> is_error_shape v) \<or>
         (is_code_shape v \<and> \<not> is_result_shape v \<and> \<not> is_error_shape v) \<or>
         (is_error_shape v \<and> \<not> is_result_shape v \<and> \<not> is_code_shape v)"
  using assms by (auto simp: is_result_shape_iff is_code_shape_iff is_error_shape_iff)

lemma process_file_analyzer_shape:
  "process_file_analyzer fs d = (Inr v, evs) \<Longrightarrow> is_result_shape v \<or> is_error_shape v"
  by (auto simp: process_file_analyzer_def split: sum.splits if_splits bool.splits option.splits)

lemma process_code_generator_shape:
  "process_code_generator d = Inr v \<Longrightarrow> is_code_shape v \<or> is_error_shape v"
  by (auto simp: process_code_generator_def split: sum.splits if_splits)

lemma process_input_shape:
  "process_input fs d = (Inr v, evs) \<Longrightarrow>
   is_result_shape v \<or> is_code_shape v \<or> is_error_shape v"
  using process_file_analyzer_shape [of fs d v evs] process_code_generator_shape [of d v]
  by (auto simp: process_input_def split: sum.splits if_splits)



lemma process_input_file_analyzer:
  "map_of kvs ''tool'' = Some (JStr ''file_analyzer'') \<Longrightarrow>
   process_input fs (JObj kvs) = process_file_analyzer fs (JObj kvs)"
  by (simp add: process_input_def)

lemma process_input_code_generator:
  "map_of kvs ''tool'' = Some (JStr ''code_generator'') \<Longrightarrow>
   process_input fs (JObj kvs) = (process_code_generator (JObj kvs), [])"
  by (simp add: process_input_def)

text \<open>What \<open>main\<close> hands to \<^verbatim>\<open>json.dump\<close>, and the calls it makes.\<close>

lemma main_written:
  "written (main loaded fs) =
     (case loaded of
        Inl e \<Rightarrow> [JObj [(''error'', JStr (str_exc e))]]
      | Inr d \<Rightarrow> (case fst (process_input fs d) of
                    Inl e \<Rightarrow> [JObj [(''error'', JStr (str_exc e))]]
                  | Inr v \<Rightarrow> [v]))"
  by (auto simp: main_def main_try_def json_dump_def split: sum.splits prod.splits)

lemma main_fs_log:
  "fs_log (main loaded fs) =
     (case loaded of Inl e \<Rightarrow> [] | Inr d \<Rightarrow> snd (process_input fs d))"
  by (auto simp: main_def main_try_def split: sum.splits prod.splits)

lemma main_raised: "raised (main loaded fs) = None"
  by (simp add: main_def split: sum.splits prod.splits)

text \<open>
  A run that leaves descriptor 1 open writes one response, of exactly one of the three
  shapes.
\<close>

lemma main_one_response_if_stdout_open:
  assumes "\<not> stdout_closed (fs_log (main loaded fs))"
  shows "\<exists>v. stdout (main loaded fs) = [v] \<and>
       ((is_result_shape v \<and> \<not> is_code_shape v \<and> \<not> is_error_shape v) \<or>
        (is_code_shape v \<and> \<not> is_result_shape v \<and> \<not> is_error_shape v) \<or>
        (is_error_shape v \<and> \<not> is_result_shape v \<and> \<not> is_code_shape v))"
proof -
  have out: "stdout (main loaded fs) = written (main loaded fs)"
    using assms by (simp add: stdout_def)
  show ?thesis
  proof (cases loaded)
    case (Inl e)
    then show ?thesis unfolding out by (simp add: main_written)
  next
    case (Inr d)
    obtain r evs where pi: "process_input fs d = (r, evs)" by (cases "process_input fs d")
    show ?thesis
    proof (cases r)
      case (Inl e)
      with Inr pi show ?thesis unfolding out by (simp add: main_written)
    next
      case r: (Inr v)
      with pi have "is_result_shape v \<or> is_code_shape v \<or> is_error_shape v"
        by (auto dest: process_input_shape)
      then have "(is_result_shape v \<and> \<not> is_code_shape v \<and> \<not> is_error_shape v) \<or>
                 (is_code_shape v \<and> \<not> is_result_shape v \<and> \<not> is_error_shape v) \<or>
                 (is_error_shape v \<and> \<not> is_result_shape v \<and> \<not> is_code_shape v)"
        by (rule one_shape)
      moreover have "stdout (main loaded fs) = [v]"
        unfolding out using Inr pi r by (simp add: main_written)
      ultimately show ?thesis by blast
    qed
  qed
qed


section \<open>The claims\<close>

text \<open>
  C1. Every invocation emits exactly one JSON value to standard output, and the value has
  exactly one of the shapes \<^verbatim>\<open>{result}\<close>, \<^verbatim>\<open>{code, explanation}\<close>, \<^verbatim>\<open>{error}\<close>.
  The program breaks this on the request
  \<^verbatim>\<open>{"tool": "file_analyzer", "file_path": 1}\<close>: the integer is true, so it passes the
  check for a missing path; \<^verbatim>\<open>os.path.exists(1)\<close> holds, \<^verbatim>\<open>open(1, ...)\<close> wraps standard
  output, and the end of the \<^verbatim>\<open>with\<close> block closes it. The handler still returns a
  response and \<open>main\<close> hands it to \<^verbatim>\<open>json.dump\<close>, but nothing reaches standard output and
  the exit status is 120.
\<close>

theorem main_closes_stdout_on_descriptor:
  "written (main (Inr (JObj [(''tool'', JStr ''file_analyzer''), (''file_path'', JInt 1)])) demo_fs)
   = [JObj [(''error'', JStr ''Failed to analyze file: [Errno 9] Bad file descriptor'')]]
   \<and> stdout (main (Inr (JObj [(''tool'', JStr ''file_analyzer''), (''file_path'', JInt 1)])) demo_fs)
     = []
   \<and> exit_code (main (Inr (JObj [(''tool'', JStr ''file_analyzer''), (''file_path'', JInt 1)]))
                  demo_fs)
     = 120"
  by (simp add: main_written main_fs_log main_raised stdout_def exit_code_def stdout_closed_def
      is_stdout_fd_def process_input_def process_file_analyzer_def demo_fs_def)



text \<open>
  C3. For a record whose \<^verbatim>\<open>tool\<close> (the empty string when absent) is neither
  \<^verbatim>\<open>file_analyzer\<close> nor \<^verbatim>\<open>code_generator\<close>, the dispatcher returns the error
  \<^verbatim>\<open>Unknown tool: \<close> followed by the tool value, as an f-string prints it.
\<close>

theorem unknown_tool:
  assumes "tool = (case map_of kvs ''tool'' of None \<Rightarrow> JStr [] | Some v \<Rightarrow> v)"
    and "tool \<noteq> JStr ''file_analyzer''"
    and "tool \<noteq> JStr ''code_generator''"
  shows "process_input fs (JObj kvs)
         = (Inr (JObj [(''error'', JStr (''Unknown tool: '' @ py_str tool))]), [])"
  using assms by (simp add: process_input_def)

text \<open>A tool the program does not know, and a record without the field.\<close>

theorem unknown_tool_witness:
  "process_input demo_fs (JObj [(''tool'', JStr ''translator'')])
   = (Inr (JObj [(''error'', JStr ''Unknown tool: translator'')]), [])
   \<and> process_input demo_fs (JObj [(''file_path'', JStr ''notes.txt'')])
   = (Inr (JObj [(''error'', JStr ''Unknown tool: '')]), [])"
proof -
  have a: "JStr ''translator''
           = (case map_of [(''tool'', JStr ''translator'')] ''tool'' of
                None \<Rightarrow> JStr [] | Some v \<Rightarrow> v)"
    by simp
  have b: "JStr []
           = (case map_of [(''file_path'', JStr ''notes.txt'')] ''tool'' of
                None \<Rightarrow> JStr [] | Some v \<Rightarrow> v)"
    by simp
  show ?thesis
    using unknown_tool [OF a, of demo_fs] unknown_tool [OF b, of demo_fs]
    by (simp add: py_str_def)
qed



text \<open>
  C5. For the tool \<^verbatim>\<open>code_generator\<close> with a language that is \<^verbatim>\<open>python\<close> up to case
  (or absent) and a specification that holds \<^verbatim>\<open>web\<close> or \<^verbatim>\<open>api\<close> up to case, the code is
  the web API template and the explanation the web API sentence, whatever else the
  specification holds.
\<close>

theorem python_web_api_template:
  assumes "map_of kvs ''tool'' = Some (JStr ''code_generator'')"
    and "(case map_of kvs ''language'' of None \<Rightarrow> JStr ''python'' | Some v \<Rightarrow> v)
         = JStr language"
    and "lower language = ''python''"
    and "map_of kvs ''specification'' = Some (JStr specification)"
    and "(\<exists>pre post. lower specification = pre @ ''web'' @ post)
         \<or> (\<exists>pre post. lower specification = pre @ ''api'' @ post)"
  shows "process_input fs (JObj kvs)
         = (Inr (JObj [(''code'', JStr web_api_code),
                       (''explanation'',
                        JStr ''Generated a Flask web API with GET and POST endpoints'')]), [])"
proof -
  have hit: "py_in ''web'' (lower specification) \<or> py_in ''api'' (lower specification)"
    using assms(5) by (simp add: py_in_iff)
  then have "lower specification \<noteq> []" by auto
  then have "specification \<noteq> []" by (auto simp: lower_def)
  with hit assms(1-4) show ?thesis
    by (simp add: process_input_code_generator process_code_generator_def)
qed

text \<open>A specification that names an API and data analysis as well.\<close>

theorem python_web_api_template_witness:
  "process_input demo_fs
     (JObj [(''tool'', JStr ''code_generator''), (''language'', JStr ''Python''),
            (''specification'', JStr ''Build a REST api for data analysis'')])
   = (Inr (JObj [(''code'', JStr web_api_code),
                 (''explanation'',
                  JStr ''Generated a Flask web API with GET and POST endpoints'')]), [])"
proof -
  let ?kvs = "[(''tool'', JStr ''code_generator''), (''language'', JStr ''Python''),
               (''specification'', JStr ''Build a REST api for data analysis'')]"
  have h1: "map_of ?kvs ''tool'' = Some (JStr ''code_generator'')" by simp
  have h2: "(case map_of ?kvs ''language'' of None \<Rightarrow> JStr ''python'' | Some v \<Rightarrow> v)
            = JStr ''Python''" by simp
  have h3: "lower ''Python'' = ''python''" by code_simp
  have h4: "map_of ?kvs ''specification'' = Some (JStr ''Build a REST api for data analysis'')"
    by simp
  have low: "lower ''Build a REST api for data analysis''
             = ''build a rest '' @ ''api'' @ '' for data analysis''" by code_simp
  have h5: "(\<exists>pre post. lower ''Build a REST api for data analysis'' = pre @ ''web'' @ post)
            \<or> (\<exists>pre post. lower ''Build a REST api for data analysis'' = pre @ ''api'' @ post)"
    using low by blast
  show ?thesis by (rule python_web_api_template [OF h1 h2 h3 h4 h5])
qed

text \<open>
  C6. The tool \<^verbatim>\<open>file_analyzer\<close> with \<^verbatim>\<open>file_path\<close> empty or absent returns the error
  \<^verbatim>\<open>File path is required\<close>; the tool \<^verbatim>\<open>code_generator\<close> with \<^verbatim>\<open>specification\<close> empty or
  absent returns the error \<^verbatim>\<open>Specification is required\<close>. Neither does anything more:
  no file is touched and nothing is raised, whatever the other fields hold.
\<close>

theorem required_fields:
  "(map_of kvs ''tool'' = Some (JStr ''file_analyzer'')
      \<and> (map_of kvs ''file_path'' = None \<or> map_of kvs ''file_path'' = Some (JStr []))
    \<longrightarrow> process_input fs (JObj kvs)
        = (Inr (JObj [(''error'', JStr ''File path is required'')]), []))
   \<and> (map_of kvs ''tool'' = Some (JStr ''code_generator'')
      \<and> (map_of kvs ''specification'' = None \<or> map_of kvs ''specification'' = Some (JStr []))
    \<longrightarrow> process_input fs (JObj kvs)
        = (Inr (JObj [(''error'', JStr ''Specification is required'')]), []))"
  by (auto simp: process_input_file_analyzer process_input_code_generator
      process_file_analyzer_def process_code_generator_def)

text \<open>A request without a path, and one with an empty specification and a bad language.\<close>

theorem required_fields_witness:
  "process_input demo_fs
     (JObj [(''tool'', JStr ''file_analyzer''), (''analysis_type'', JStr ''security'')])
   = (Inr (JObj [(''error'', JStr ''File path is required'')]), [])
   \<and> process_input demo_fs
       (JObj [(''tool'', JStr ''code_generator''), (''specification'', JStr []),
              (''language'', JInt 7)])
   = (Inr (JObj [(''error'', JStr ''Specification is required'')]), [])"
  using required_fields
          [of "[(''tool'', JStr ''file_analyzer''), (''analysis_type'', JStr ''security'')]"
              demo_fs]
        required_fields
          [of "[(''tool'', JStr ''code_generator''), (''specification'', JStr []),
                (''language'', JInt 7)]"
              demo_fs]
  by simp

text \<open>
  C7. The tool \<^verbatim>\<open>file_analyzer\<close> with a path \<open>p\<close> that is not empty and does not exist
  returns the error \<^verbatim>\<open>File not found: p\<close>, and the only call to the file system is the
  existence check: the file is neither opened nor read.
\<close>

theorem file_not_found:
  assumes "map_of kvs ''tool'' = Some (JStr ''file_analyzer'')"
    and "map_of kvs ''file_path'' = Some (JStr p)"
    and "p \<noteq> []"
    and "os_path_exists fs (JStr p) = Inr False"
  shows "process_input fs (JObj kvs)
         = (Inr (JObj [(''error'', JStr (''File not found: '' @ p))]), [Exists (JStr p)])"
  using assms
  by (simp add: process_input_file_analyzer process_file_analyzer_def py_str_def)

text \<open>A path the sample file system does not have.\<close>

theorem file_not_found_witness:
  "process_input demo_fs
     (JObj [(''tool'', JStr ''file_analyzer''), (''file_path'', JStr ''gone.txt'')])
   = (Inr (JObj [(''error'', JStr ''File not found: gone.txt'')]), [Exists (JStr ''gone.txt'')])"
proof -
  let ?kvs = "[(''tool'', JStr ''file_analyzer''), (''file_path'', JStr ''gone.txt'')]"
  have h1: "map_of ?kvs ''tool'' = Some (JStr ''file_analyzer'')" by simp
  have h2: "map_of ?kvs ''file_path'' = Some (JStr ''gone.txt'')" by simp
  have h3: "''gone.txt'' \<noteq> []" by simp
  have h4: "os_path_exists demo_fs (JStr ''gone.txt'') = Inr False" by (simp add: demo_fs_def)
  show ?thesis using file_not_found [OF h1 h2 h3 h4] by simp
qed



text \<open>
  C9. The field \<^verbatim>\<open>framework\<close> has no influence: two requests that agree on every other
  key get the same response from the code generator, and the same run of the program.
\<close>

theorem framework_ignored:
  assumes "\<forall>k. k \<noteq> ''framework'' \<longrightarrow> map_of kvs1 k = map_of kvs2 k"
  shows "process_code_generator (JObj kvs1) = process_code_generator (JObj kvs2)
         \<and> process_input fs (JObj kvs1) = process_input fs (JObj kvs2)
         \<and> main (Inr (JObj kvs1)) fs = main (Inr (JObj kvs2)) fs"
proof -
  have "map_of kvs1 ''specification'' = map_of kvs2 ''specification''"
    and "map_of kvs1 ''language'' = map_of kvs2 ''language''"
    using assms by simp_all
  then have gen: "process_code_generator (JObj kvs1) = process_code_generator (JObj kvs2)"
    by (simp add: process_code_generator_def)
  have "map_of kvs1 ''file_path'' = map_of kvs2 ''file_path''"
    and "map_of kvs1 ''analysis_type'' = map_of kvs2 ''analysis_type''"
    using assms by simp_all
  then have ana: "process_file_analyzer fs (JObj kvs1) = process_file_analyzer fs (JObj kvs2)"
    by (simp add: process_file_analyzer_def)
  have "map_of kvs1 ''tool'' = map_of kvs2 ''tool''"
    using assms by simp
  with gen ana have inp: "process_input fs (JObj kvs1) = process_input fs (JObj kvs2)"
    by (simp add: process_input_def)
  then have "main (Inr (JObj kvs1)) fs = main (Inr (JObj kvs2)) fs"
    by (simp add: main_def main_try_def)
  with gen inp show ?thesis by simp
qed

text \<open>The same request with and without a framework.\<close>

theorem framework_ignored_witness:
  "process_code_generator
     (JObj [(''tool'', JStr ''code_generator''), (''specification'', JStr ''a web shop''),
            (''framework'', JStr ''django'')])
   = process_code_generator
       (JObj [(''tool'', JStr ''code_generator''), (''specification'', JStr ''a web shop'')])"
proof -
  have h: "\<forall>k. k \<noteq> ''framework'' \<longrightarrow>
             map_of [(''tool'', JStr ''code_generator''), (''specification'', JStr ''a web shop''),
                     (''framework'', JStr ''django'')] k
             = map_of [(''tool'', JStr ''code_generator''),
                       (''specification'', JStr ''a web shop'')] k"
    by simp
  show ?thesis using framework_ignored [OF h, of demo_fs] by blast
qed



end
